theory Spec2Isabelle
  imports Main
begin

section \<open>The Organizational Unit plugin: container provisioning in \<open>ou_add.pre_callback\<close>\<close>

text \<open>
  The only behaviour of \<^verbatim>\<open>plugin/ipaserver/plugins/ou.py\<close> is the hook
  \<^verbatim>\<open>ou_add.pre_callback\<close> (lines 128-155):
  \<^verbatim>\<open>
    def pre_callback(self, ldap, dn, entry_attrs, attrs_list, *keys, **options):
        assert isinstance(dn, DN)
        container_dn = DN(self.obj.container_dn, api.env.basedn)
        try:
            ldap.get_entry(container_dn, ['objectclass'])
        except errors.NotFound:
            container_entry = ldap.make_entry(
                container_dn, objectclass=['nsContainer', 'top'], cn=['altou'])
            try:
                ldap.add_entry(container_entry)
            except errors.DuplicateEntry:
                pass
            except Exception as e:
                raise errors.NotFound(
                    reason=_('Failed to create container %(container)s: %(error)s') % {
                        'container': str(container_dn), 'error': str(e)})
        if 'objectcategory' not in entry_attrs:
            entry_attrs['objectCategory'] = f'CN=altOrganizationalUnit,CN=schema,{api.env.basedn}'
        return dn
  \<close>
  The directory connection \<^verbatim>\<open>ldap\<close> is an argument of the hook, so the model takes
  it as an argument too: a pair of operations over a connection state of any type.
  The process-wide \<^verbatim>\<open>api.env.basedn\<close> becomes the explicit argument \<open>basedn\<close>.
  The arguments \<^verbatim>\<open>attrs_list\<close>, \<^verbatim>\<open>keys\<close> and \<^verbatim>\<open>options\<close> are never read by
  the body and are left out.
\<close>

subsection \<open>Distinguished names\<close>

text \<open>
  A DN is the list of its relative names, most specific first; a relative name is a list
  of attribute-value pairs, one in almost every DN, several in a multi-valued relative
  name. \<^verbatim>\<open>DN(a, b)\<close> concatenates the relative names of \<open>a\<close> and \<open>b\<close>.
\<close>

type_synonym ava = "string \<times> string"
type_synonym rdn = "ava list"
type_synonym dn = "rdn list"

text \<open>
  \<^verbatim>\<open>str(dn)\<close>, which line 147 calls and the f-string of line 153 calls on
  \<^verbatim>\<open>api.env.basedn\<close>, is the host framework's and hands the DN to the LDAP library's
  \<^verbatim>\<open>dn2str\<close>; neither is part of this repository. The library writes the RFC 4514
  form. Its \<^verbatim>\<open>escape_dn_chars\<close> leaves the empty string alone; in any other it puts a
  backslash before every backslash, then before every comma, plus sign, double quote,
  less-than sign, greater-than sign, semicolon, equals sign and null character, in that
  order; then it puts one before a space that ends the string, and last one before a
  number sign or a space that begins it. Its \<^verbatim>\<open>dn2str\<close> joins attribute and escaped
  value with an equals sign, the pairs of one relative name with plus signs, and the
  relative names with commas. The backslash is \<open>CHR 0x5C\<close>, the double quote
  \<open>CHR 0x22\<close>, the null character \<open>CHR 0x00\<close>.
\<close>

text \<open>A backslash before every \<open>c\<close> in \<open>s\<close>.\<close>

definition escape_char :: "char \<Rightarrow> string \<Rightarrow> string" where
  "escape_char c s = concat (map (\<lambda>x. if x = c then [CHR 0x5C, c] else [x]) s)"

definition escape_dn_chars :: "string \<Rightarrow> string" where
  "escape_dn_chars s =
     (if s = [] then []
      else
        let s1 = foldl (\<lambda>t c. escape_char c t) s
                   [CHR 0x5C, CHR '','', CHR ''+'', CHR 0x22, CHR ''<'', CHR ''>'', CHR '';'',
                    CHR ''='', CHR 0x00];
            s2 = (case rev s1 of
                    [] \<Rightarrow> s1
                  | c # front \<Rightarrow> if c = CHR '' '' then rev front @ [CHR 0x5C, CHR '' ''] else s1)
        in (case s2 of
              [] \<Rightarrow> s2
            | c # rest \<Rightarrow> if c = CHR ''#'' \<or> c = CHR '' '' then CHR 0x5C # s2 else s2))"

text \<open>\<^verbatim>\<open>sep.join(xs)\<close>.\<close>

fun join :: "string \<Rightarrow> string list \<Rightarrow> string" where
  "join sep [] = []"
| "join sep [x] = x"
| "join sep (x # y # ys) = x @ sep @ join sep (y # ys)"

definition ava_str :: "ava \<Rightarrow> string" where
  "ava_str av = join ''='' [fst av, escape_dn_chars (snd av)]"

definition rdn_str :: "rdn \<Rightarrow> string" where
  "rdn_str r = join ''+'' (map ava_str r)"

definition dn_str :: "dn \<Rightarrow> string" where
  "dn_str d = join '','' (map rdn_str d)"

text \<open>\<^verbatim>\<open>ou.container_dn = DN(('cn', 'altou'))\<close> (line 48).\<close>

definition container_dn :: dn where
  "container_dn = [[(''cn'', ''altou'')]]"

subsection \<open>Directory entries\<close>

text \<open>
  An attribute value is a string (the default object category is one) or a list of
  strings (the container's object classes and name are).
\<close>

datatype attr_value = Single string | Multi "string list"

text \<open>
  Both \<^verbatim>\<open>entry_attrs\<close> and the result of \<^verbatim>\<open>ldap.make_entry\<close> are entries of the
  host framework (its class \<^verbatim>\<open>LDAPEntry\<close>, which is not part of this repository): a DN
  and a dictionary of attributes whose names are compared without regard to case, as LDAP
  attribute names are. The hook relies on this: it tests the name \<^verbatim>\<open>'objectcategory'\<close>
  and stores under \<^verbatim>\<open>'objectCategory'\<close>. The model keeps the attributes in a map
  keyed by the lower-cased name; \<open>contains\<close>, \<open>getitem\<close> and \<open>setitem\<close> are
  \<^verbatim>\<open>name in entry\<close>, \<^verbatim>\<open>entry.get(name)\<close> and \<^verbatim>\<open>entry[name] = value\<close>.
  Lower-casing is that of the ASCII letters: a code from 65 (A) to 90 (Z) gets 32 added,
  which sets bit 5 of the character.
\<close>

fun lower_char :: "char \<Rightarrow> char" where
  "lower_char (Char b0 b1 b2 b3 b4 b5 b6 b7) =
     (let n = (of_char (Char b0 b1 b2 b3 b4 b5 b6 b7) :: nat)
      in if 65 \<le> n \<and> n \<le> 90 then Char b0 b1 b2 b3 b4 True b6 b7
         else Char b0 b1 b2 b3 b4 b5 b6 b7)"

definition lower :: "string \<Rightarrow> string" where
  "lower s = map lower_char s"

record ldap_entry =
  entry_dn :: dn
  entry_map :: "string \<rightharpoonup> attr_value"

definition contains :: "string \<Rightarrow> ldap_entry \<Rightarrow> bool" where
  "contains name e = (case entry_map e (lower name) of None \<Rightarrow> False | Some _ \<Rightarrow> True)"

definition getitem :: "string \<Rightarrow> ldap_entry \<Rightarrow> attr_value option" where
  "getitem name e = entry_map e (lower name)"

definition setitem :: "string \<Rightarrow> attr_value \<Rightarrow> ldap_entry \<Rightarrow> ldap_entry" where
  "setitem name v e = e\<lparr>entry_map := (entry_map e)(lower name \<mapsto> v)\<rparr>"

text \<open>\<^verbatim>\<open>ldap.make_entry(dn, **kwargs)\<close> builds an entry in memory; it is no directory call.\<close>

definition make_entry :: "dn \<Rightarrow> (string \<times> attr_value) list \<Rightarrow> ldap_entry" where
  "make_entry d kwargs =
     foldl (\<lambda>e (name, v). setitem name v e) \<lparr>entry_dn = d, entry_map = Map.empty\<rparr> kwargs"

subsection \<open>Errors and the directory client\<close>

text \<open>
  The exceptions the hook distinguishes: \<^verbatim>\<open>errors.NotFound\<close>,
  \<^verbatim>\<open>errors.DuplicateEntry\<close> and every other \<^verbatim>\<open>Exception\<close>. Each carries the text
  that \<^verbatim>\<open>str(e)\<close> gives.
\<close>

datatype error =
    is_NotFound: NotFound string
  | is_DuplicateEntry: DuplicateEntry string
  | OtherError string

fun error_str :: "error \<Rightarrow> string" where
  "error_str (NotFound reason) = reason"
| "error_str (DuplicateEntry msg) = msg"
| "error_str (OtherError msg) = msg"

text \<open>
  The client's two operations that the hook calls. Each takes the connection state and
  returns it, with the entry read (or unit) or the exception raised.
\<close>

record 's ldap_client =
  get_entry :: "dn \<Rightarrow> string list \<Rightarrow> 's \<Rightarrow> (error + ldap_entry) \<times> 's"
  add_entry :: "ldap_entry \<Rightarrow> 's \<Rightarrow> (error + unit) \<times> 's"

subsection \<open>The hook\<close>

text \<open>The entry built at lines 135-139.\<close>

definition container_entry :: "dn \<Rightarrow> ldap_entry" where
  "container_entry cdn =
     make_entry cdn [(''objectclass'', Multi [''nsContainer'', ''top'']), (''cn'', Multi [''altou''])]"

text \<open>
  Lines 140-150: the write of the container and its two handlers. The result is the
  exception that leaves the \<^verbatim>\<open>try\<close>, if any.
\<close>

definition add_container :: "'s ldap_client \<Rightarrow> dn \<Rightarrow> 's \<Rightarrow> (error + unit) \<times> 's" where
  "add_container ldap cdn s =
     (case add_entry ldap (container_entry cdn) s of
        (Inr u, s') \<Rightarrow> (Inr (), s')
      | (Inl e, s') \<Rightarrow>
          (case e of
             DuplicateEntry msg \<Rightarrow> (Inr (), s')
           | NotFound reason \<Rightarrow>
               (Inl (NotFound (''Failed to create container '' @ dn_str cdn @ '': '' @ error_str e)), s')
           | OtherError msg \<Rightarrow>
               (Inl (NotFound (''Failed to create container '' @ dn_str cdn @ '': '' @ error_str e)), s')))"

text \<open>
  Lines 132-150, the operation the specification calls EnsureContainer: the probe, and
  the write when the probe raises \<^verbatim>\<open>NotFound\<close>. Any other exception of the probe is
  not caught and leaves the hook.
\<close>

definition ensure_container :: "'s ldap_client \<Rightarrow> dn \<Rightarrow> 's \<Rightarrow> (error + unit) \<times> 's" where
  "ensure_container ldap cdn s =
     (case get_entry ldap cdn [''objectclass''] s of
        (Inr found, s1) \<Rightarrow> (Inr (), s1)
      | (Inl e, s1) \<Rightarrow>
          (case e of
             NotFound reason \<Rightarrow> add_container ldap cdn s1
           | DuplicateEntry msg \<Rightarrow> (Inl e, s1)
           | OtherError msg \<Rightarrow> (Inl e, s1)))"

text \<open>Lines 152-153.\<close>

definition default_objectcategory :: "dn \<Rightarrow> ldap_entry \<Rightarrow> ldap_entry" where
  "default_objectcategory basedn entry_attrs =
     (if \<not> contains ''objectcategory'' entry_attrs
      then setitem ''objectCategory''
             (Single (''CN=altOrganizationalUnit,CN=schema,'' @ dn_str basedn)) entry_attrs
      else entry_attrs)"

text \<open>
  The whole hook. It returns the DN and the entry as the hook leaves it (the source
  updates \<^verbatim>\<open>entry_attrs\<close> in place), or the exception raised, and the connection
  state.
\<close>

definition pre_callback ::
  "dn \<Rightarrow> 's ldap_client \<Rightarrow> dn \<Rightarrow> ldap_entry \<Rightarrow> 's \<Rightarrow> (error + dn \<times> ldap_entry) \<times> 's" where
  "pre_callback basedn ldap dn entry_attrs s =
     (case ensure_container ldap (container_dn @ basedn) s of
        (Inl e, s') \<Rightarrow> (Inl e, s')
      | (Inr u, s') \<Rightarrow> (Inr (dn, default_objectcategory basedn entry_attrs), s'))"

subsection \<open>Clients\<close>

text \<open>
  A directory, for the claims about what the directory holds: a map from DNs to entries.
  A read of a missing entry raises \<^verbatim>\<open>NotFound\<close>, a read of a present one returns the
  requested attributes, a write at a taken DN raises \<^verbatim>\<open>DuplicateEntry\<close>, and any
  other write stores the entry.
\<close>

type_synonym directory = "dn \<rightharpoonup> ldap_entry"

definition directory_client :: "directory ldap_client" where
  "directory_client =
     \<lparr>get_entry = (\<lambda>d names dir.
        (case dir d of
           None \<Rightarrow> Inl (NotFound (dn_str d @ '': not found''))
         | Some e \<Rightarrow> Inr (e\<lparr>entry_map := entry_map e |` set (map lower names)\<rparr>), dir)),
      add_entry = (\<lambda>e dir.
        (case dir (entry_dn e) of
           None \<Rightarrow> (Inr (), dir(entry_dn e \<mapsto> e))
         | Some old \<Rightarrow> (Inl (DuplicateEntry ''This entry already exists''), dir)))\<rparr>"

text \<open>
  A client whose two operations answer the same thing whatever the state, for the
  outcomes a directory alone never shows: a write that loses a race, or fails.
\<close>

definition fixed_client :: "(error + ldap_entry) \<Rightarrow> (error + unit) \<Rightarrow> unit ldap_client" where
  "fixed_client probe written =
     \<lparr>get_entry = (\<lambda>d names s. (probe, s)), add_entry = (\<lambda>e s. (written, s))\<rparr>"

text \<open>
  The directory calls a hook issues are observed by wrapping its client: the wrapped
  client passes every call on and appends it to a log kept beside the connection state.
\<close>

datatype call = GetEntry dn "string list" | AddEntry ldap_entry

definition recording :: "'s ldap_client \<Rightarrow> ('s \<times> call list) ldap_client" where
  "recording ldap =
     \<lparr>get_entry = (\<lambda>d names (s, log).
        (case get_entry ldap d names s of (r, s') \<Rightarrow> (r, (s', log @ [GetEntry d names])))),
      add_entry = (\<lambda>e (s, log).
        (case add_entry ldap e s of (r, s') \<Rightarrow> (r, (s', log @ [AddEntry e]))))\<rparr>"

text \<open>Whether a call raised \<^verbatim>\<open>NotFound\<close>.\<close>

fun raises_NotFound :: "error + 'a \<Rightarrow> bool" where
  "raises_NotFound (Inl e) = is_NotFound e"
| "raises_NotFound (Inr x) = False"

subsection \<open>The scenario of the specification\<close>

text \<open>
  Base DN \<^verbatim>\<open>dc=example,dc=com\<close>, and a new unit \<^verbatim>\<open>ou=Engineering\<close> in the
  container: once with no object category supplied, once with one supplied under the
  name \<^verbatim>\<open>objectCategory\<close>.
\<close>

definition example_basedn :: dn where
  "example_basedn = [[(''dc'', ''example'')], [(''dc'', ''com'')]]"

text \<open>A base DN with a comma inside a value: organisation \<^verbatim>\<open>Acme, Inc\<close>, country \<^verbatim>\<open>US\<close>.\<close>

definition acme_basedn :: dn where
  "acme_basedn = [[(''o'', ''Acme, Inc'')], [(''c'', ''US'')]]"

definition engineering_dn :: dn where
  "engineering_dn = [(''ou'', ''Engineering'')] # container_dn @ example_basedn"

definition engineering_entry :: ldap_entry where
  "engineering_entry = make_entry engineering_dn [(''ou'', Single ''Engineering'')]"

definition custom_entry :: ldap_entry where
  "custom_entry =
     make_entry engineering_dn
       [(''ou'', Single ''Engineering''),
        (''description'', Single ''Engineering department''),
        (''objectCategory'', Single ''CN=Organizational-Unit,CN=Schema,DC=corp'')]"

section \<open>Properties\<close>

subsection \<open>Entries\<close>

lemma lower_objectCategory: "lower ''objectCategory'' = ''objectcategory''"
  by (simp add: lower_def)

lemma lower_objectcategory: "lower ''objectcategory'' = ''objectcategory''"
  by (simp add: lower_def)

lemma container_entry_eq:
  "container_entry cdn =
     \<lparr>entry_dn = cdn,
      entry_map = [''objectclass'' \<mapsto> Multi [''nsContainer'', ''top''], ''cn'' \<mapsto> Multi [''altou'']]\<rparr>"
  by (simp add: container_entry_def make_entry_def setitem_def lower_def)

lemma entry_dn_container_entry: "entry_dn (container_entry cdn) = cdn"
  by (simp add: container_entry_eq)

lemma default_objectcategory_absent:
  "\<not> contains ''objectcategory'' entry_attrs \<Longrightarrow>
   getitem ''objectCategory'' (default_objectcategory basedn entry_attrs) =
     Some (Single (''CN=altOrganizationalUnit,CN=schema,'' @ dn_str basedn))"
  by (simp add: default_objectcategory_def getitem_def setitem_def)

lemma default_objectcategory_present:
  "lower name = ''objectcategory'' \<Longrightarrow> getitem name entry_attrs = Some v \<Longrightarrow>
   default_objectcategory basedn entry_attrs = entry_attrs"
  by (simp add: default_objectcategory_def getitem_def contains_def lower_objectcategory)

lemma default_objectcategory_other:
  "lower name \<noteq> ''objectcategory'' \<Longrightarrow>
   getitem name (default_objectcategory basedn entry_attrs) = getitem name entry_attrs"
  by (simp add: default_objectcategory_def getitem_def setitem_def lower_objectCategory)

lemmas dn_str_defs =
  dn_str_def rdn_str_def ava_str_def escape_dn_chars_def escape_char_def

lemma dn_str_example_basedn: "dn_str example_basedn = ''dc=example,dc=com''"
  by (simp add: example_basedn_def dn_str_defs)

lemma dn_str_example: "dn_str (container_dn @ example_basedn) = ''cn=altou,dc=example,dc=com''"
  by (simp add: container_dn_def example_basedn_def dn_str_defs)

lemma dn_str_acme_basedn: "dn_str acme_basedn = ''o=Acme'' @ [CHR 0x5C] @ '', Inc,c=US''"
  by (simp add: acme_basedn_def dn_str_defs)

lemma dn_str_acme:
  "dn_str (container_dn @ acme_basedn) = ''cn=altou,o=Acme'' @ [CHR 0x5C] @ '', Inc,c=US''"
  by (simp add: container_dn_def acme_basedn_def dn_str_defs)

lemma escape_dn_chars_examples:
  "escape_dn_chars [] = []"
  "escape_dn_chars ''altou'' = ''altou''"
  "escape_dn_chars ''a+b=c'' = ''a'' @ [CHR 0x5C] @ ''+b'' @ [CHR 0x5C] @ ''=c''"
  "escape_dn_chars '' x '' = [CHR 0x5C] @ '' x'' @ [CHR 0x5C] @ '' ''"
  "escape_dn_chars '' '' = [CHR 0x5C] @ '' ''"
  "escape_dn_chars ''#1'' = [CHR 0x5C] @ ''#1''"
  "escape_dn_chars [CHR 0x5C] = [CHR 0x5C, CHR 0x5C]"
  by (simp_all add: escape_dn_chars_def escape_char_def)

lemma dn_str_multi_valued:
  "dn_str [[(''cn'', ''a''), (''uid'', ''b'')], [(''dc'', ''x'')]] = ''cn=a+uid=b,dc=x''"
  by (simp add: dn_str_defs)

lemma engineering_defaulted:
  "default_objectcategory example_basedn engineering_entry =
     make_entry engineering_dn
       [(''ou'', Single ''Engineering''),
        (''objectCategory'', Single ''CN=altOrganizationalUnit,CN=schema,dc=example,dc=com'')]"
  by (simp add: default_objectcategory_def engineering_entry_def make_entry_def contains_def
      setitem_def lower_def dn_str_example_basedn)

subsection \<open>The hook, one outcome at a time\<close>

lemma ensure_container_found:
  "get_entry ldap cdn [''objectclass''] s = (Inr found, s1) \<Longrightarrow>
   ensure_container ldap cdn s = (Inr (), s1)"
  by (simp add: ensure_container_def)

lemma ensure_container_absent:
  "get_entry ldap cdn [''objectclass''] s = (Inl (NotFound reason), s1) \<Longrightarrow>
   ensure_container ldap cdn s = add_container ldap cdn s1"
  by (simp add: ensure_container_def)

lemma ensure_container_probe_fails:
  "get_entry ldap cdn [''objectclass''] s = (Inl e, s1) \<Longrightarrow> \<not> is_NotFound e \<Longrightarrow>
   ensure_container ldap cdn s = (Inl e, s1)"
  by (cases e) (simp_all add: ensure_container_def)

lemma add_container_written:
  "add_entry ldap (container_entry cdn) s = (Inr u, s') \<Longrightarrow>
   add_container ldap cdn s = (Inr (), s')"
  by (simp add: add_container_def)

lemma add_container_duplicate:
  "add_entry ldap (container_entry cdn) s = (Inl (DuplicateEntry msg), s') \<Longrightarrow>
   add_container ldap cdn s = (Inr (), s')"
  by (simp add: add_container_def)

lemma add_container_fails:
  "add_entry ldap (container_entry cdn) s = (Inl e, s') \<Longrightarrow> \<not> is_DuplicateEntry e \<Longrightarrow>
   add_container ldap cdn s =
     (Inl (NotFound (''Failed to create container '' @ dn_str cdn @ '': '' @ error_str e)), s')"
  by (cases e) (simp_all add: add_container_def)

lemma pre_callback_ok:
  "ensure_container ldap (container_dn @ basedn) s = (Inr u, s') \<Longrightarrow>
   pre_callback basedn ldap dn entry_attrs s =
     (Inr (dn, default_objectcategory basedn entry_attrs), s')"
  by (simp add: pre_callback_def)

lemma pre_callback_raises:
  "ensure_container ldap (container_dn @ basedn) s = (Inl e, s') \<Longrightarrow>
   pre_callback basedn ldap dn entry_attrs s = (Inl e, s')"
  by (simp add: pre_callback_def)

lemma pre_callback_result:
  "fst (pre_callback basedn ldap dn entry_attrs s) = Inr (dn', entry_attrs') \<Longrightarrow>
   dn' = dn \<and> entry_attrs' = default_objectcategory basedn entry_attrs"
  by (auto simp: pre_callback_def split: prod.splits sum.splits)

lemma pre_callback_state:
  "snd (pre_callback basedn ldap dn entry_attrs s) =
     snd (ensure_container ldap (container_dn @ basedn) s)"
  by (simp add: pre_callback_def split: prod.splits sum.splits)

subsection \<open>The clients\<close>

lemma get_entry_recording:
  "get_entry (recording ldap) d names (s, log) =
     (fst (get_entry ldap d names s), snd (get_entry ldap d names s), log @ [GetEntry d names])"
  by (simp add: recording_def split: prod.splits)

lemma add_entry_recording:
  "add_entry (recording ldap) e (s, log) =
     (fst (add_entry ldap e s), snd (add_entry ldap e s), log @ [AddEntry e])"
  by (simp add: recording_def split: prod.splits)

lemma get_entry_directory_client:
  "get_entry directory_client d names dir =
     ((case dir d of
         None \<Rightarrow> Inl (NotFound (dn_str d @ '': not found''))
       | Some e \<Rightarrow> Inr (e\<lparr>entry_map := entry_map e |` set (map lower names)\<rparr>)), dir)"
  by (simp add: directory_client_def)

lemma add_entry_directory_client:
  "add_entry directory_client e dir =
     (case dir (entry_dn e) of
        None \<Rightarrow> (Inr (), dir(entry_dn e \<mapsto> e))
      | Some old \<Rightarrow> (Inl (DuplicateEntry ''This entry already exists''), dir))"
  by (simp add: directory_client_def)

text \<open>What the recorded hook does, by the outcome of the probe and of the write.\<close>

lemma recorded_found:
  assumes "get_entry ldap cdn [''objectclass''] s = (Inr found, s1)"
  shows "ensure_container (recording ldap) cdn (s, log) =
     (Inr (), s1, log @ [GetEntry cdn [''objectclass'']])"
proof -
  from assms have "get_entry (recording ldap) cdn [''objectclass''] (s, log) =
      (Inr found, s1, log @ [GetEntry cdn [''objectclass'']])"
    by (simp add: get_entry_recording)
  then show ?thesis by (rule ensure_container_found)
qed

lemma recorded_probe_fails:
  assumes "get_entry ldap cdn [''objectclass''] s = (Inl e, s1)" and "\<not> is_NotFound e"
  shows "ensure_container (recording ldap) cdn (s, log) =
     (Inl e, s1, log @ [GetEntry cdn [''objectclass'']])"
proof -
  from assms(1) have "get_entry (recording ldap) cdn [''objectclass''] (s, log) =
      (Inl e, s1, log @ [GetEntry cdn [''objectclass'']])"
    by (simp add: get_entry_recording)
  from this assms(2) show ?thesis by (rule ensure_container_probe_fails)
qed

lemma recorded_absent:
  assumes "get_entry ldap cdn [''objectclass''] s = (Inl (NotFound reason), s1)"
  shows "ensure_container (recording ldap) cdn (s, log) =
     add_container (recording ldap) cdn (s1, log @ [GetEntry cdn [''objectclass'']])"
proof -
  from assms have "get_entry (recording ldap) cdn [''objectclass''] (s, log) =
      (Inl (NotFound reason), s1, log @ [GetEntry cdn [''objectclass'']])"
    by (simp add: get_entry_recording)
  then show ?thesis by (rule ensure_container_absent)
qed

lemma recorded_write:
  "snd (snd (add_container (recording ldap) cdn (s, log))) = log @ [AddEntry (container_entry cdn)]"
proof (cases "add_entry ldap (container_entry cdn) s")
  case (Pair r s')
  then have written: "add_entry (recording ldap) (container_entry cdn) (s, log) =
      (r, s', log @ [AddEntry (container_entry cdn)])"
    by (simp add: add_entry_recording)
  show ?thesis
  proof (cases r)
    case (Inr u)
    with written show ?thesis by (simp add: add_container_written)
  next
    case (Inl e)
    show ?thesis
    proof (cases "is_DuplicateEntry e")
      case True
      then obtain msg where "e = DuplicateEntry msg" by (cases e) simp_all
      with written Inl show ?thesis by (simp add: add_container_duplicate)
    next
      case False
      with written Inl show ?thesis by (simp add: add_container_fails)
    qed
  qed
qed

lemma recorded_calls:
  "snd (snd (ensure_container (recording ldap) cdn (s, log))) =
     log @ (if raises_NotFound (fst (get_entry ldap cdn [''objectclass''] s))
            then [GetEntry cdn [''objectclass''], AddEntry (container_entry cdn)]
            else [GetEntry cdn [''objectclass'']])"
proof (cases "get_entry ldap cdn [''objectclass''] s")
  case (Pair r s1)
  show ?thesis
  proof (cases r)
    case (Inr found)
    with Pair show ?thesis by (simp add: recorded_found)
  next
    case (Inl e)
    show ?thesis
    proof (cases "is_NotFound e")
      case True
      then obtain reason where "e = NotFound reason" by (cases e) simp_all
      with Pair Inl show ?thesis by (simp add: recorded_absent recorded_write)
    next
      case False
      with Pair Inl show ?thesis by (simp add: recorded_probe_fails)
    qed
  qed
qed

text \<open>The hook on a directory.\<close>

lemma ensure_container_directory:
  "ensure_container (recording directory_client) cdn (dir, log) =
     (case dir cdn of
        None \<Rightarrow> (Inr (), dir(cdn \<mapsto> container_entry cdn),
                 log @ [GetEntry cdn [''objectclass''], AddEntry (container_entry cdn)])
      | Some e \<Rightarrow> (Inr (), dir, log @ [GetEntry cdn [''objectclass'']]))"
proof (cases "dir cdn")
  case None
  then have probe: "get_entry directory_client cdn [''objectclass''] dir =
      (Inl (NotFound (dn_str cdn @ '': not found'')), dir)"
    by (simp add: get_entry_directory_client)
  from None have "add_entry directory_client (container_entry cdn) dir =
      (Inr (), dir(cdn \<mapsto> container_entry cdn))"
    by (simp add: add_entry_directory_client entry_dn_container_entry)
  then have "add_entry (recording directory_client) (container_entry cdn)
      (dir, log @ [GetEntry cdn [''objectclass'']]) =
      (Inr (), dir(cdn \<mapsto> container_entry cdn),
       log @ [GetEntry cdn [''objectclass''], AddEntry (container_entry cdn)])"
    by (simp add: add_entry_recording)
  then have "add_container (recording directory_client) cdn
      (dir, log @ [GetEntry cdn [''objectclass'']]) =
      (Inr (), dir(cdn \<mapsto> container_entry cdn),
       log @ [GetEntry cdn [''objectclass''], AddEntry (container_entry cdn)])"
    by (rule add_container_written)
  with None show ?thesis
    by (simp add: recorded_absent [OF probe])
next
  case (Some e)
  then have "get_entry directory_client cdn [''objectclass''] dir =
      (Inr (e\<lparr>entry_map := entry_map e |` set (map lower [''objectclass''])\<rparr>), dir)"
    by (simp add: get_entry_directory_client)
  from recorded_found [OF this] Some show ?thesis
    by simp
qed

lemma pre_callback_directory:
  "pre_callback basedn (recording directory_client) dn entry_attrs (dir, log) =
     (case dir (container_dn @ basedn) of
        None \<Rightarrow>
          (Inr (dn, default_objectcategory basedn entry_attrs),
           dir(container_dn @ basedn \<mapsto> container_entry (container_dn @ basedn)),
           log @ [GetEntry (container_dn @ basedn) [''objectclass''],
                  AddEntry (container_entry (container_dn @ basedn))])
      | Some e \<Rightarrow>
          (Inr (dn, default_objectcategory basedn entry_attrs), dir,
           log @ [GetEntry (container_dn @ basedn) [''objectclass'']]))"
  by (simp add: pre_callback_def ensure_container_directory split: option.splits)

section \<open>The claims\<close>

text \<open>
  C1. EnsureContainer is idempotent. On a directory, for every container DN \<open>C\<close>: the
  first call succeeds; the second call, on the directory the first one leaves, succeeds
  too, issues the probe and nothing else (no write) and leaves that directory as it is;
  the directory the first call leaves is the one it found, with the container entry
  stored at \<open>C\<close> when nothing was there, so it holds exactly one entry at \<open>C\<close>.
\<close>

theorem ensure_container_idempotent:
  "fst (ensure_container (recording directory_client) C (dir, [])) = Inr () \<and>
   fst (snd (ensure_container (recording directory_client) C (dir, []))) =
     (case dir C of None \<Rightarrow> dir(C \<mapsto> container_entry C) | Some e \<Rightarrow> dir) \<and>
   ensure_container (recording directory_client) C
       (fst (snd (ensure_container (recording directory_client) C (dir, []))), []) =
     (Inr (), fst (snd (ensure_container (recording directory_client) C (dir, []))),
      [GetEntry C [''objectclass'']]) \<and>
   fst (snd (ensure_container (recording directory_client) C (dir, []))) C =
     Some (case dir C of None \<Rightarrow> container_entry C | Some e \<Rightarrow> e)"
  by (cases "dir C") (simp_all add: ensure_container_directory)

text \<open>
  C2. When the probe raises \<^verbatim>\<open>NotFound\<close> and the write of the container raises
  \<^verbatim>\<open>DuplicateEntry\<close>, the hook raises nothing: it returns the DN and the entry with
  the object category defaulted, as after a write that succeeded.
\<close>

theorem duplicate_entry_suppressed:
  assumes "get_entry ldap (container_dn @ basedn) [''objectclass''] s = (Inl (NotFound reason), s1)"
    and "add_entry ldap (container_entry (container_dn @ basedn)) s1 = (Inl (DuplicateEntry msg), s2)"
  shows "pre_callback basedn ldap dn entry_attrs s =
     (Inr (dn, default_objectcategory basedn entry_attrs), s2)"
proof -
  from assms(2) have "add_container ldap (container_dn @ basedn) s1 = (Inr (), s2)"
    by (rule add_container_duplicate)
  with ensure_container_absent [OF assms(1)]
  have "ensure_container ldap (container_dn @ basedn) s = (Inr (), s2)"
    by simp
  then show ?thesis by (rule pre_callback_ok)
qed

theorem duplicate_entry_suppressed_witness:
  "get_entry (fixed_client (Inl (NotFound ''no such entry''))
                (Inl (DuplicateEntry ''This entry already exists'')))
      (container_dn @ example_basedn) [''objectclass''] ()
     = (Inl (NotFound ''no such entry''), ()) \<and>
   add_entry (fixed_client (Inl (NotFound ''no such entry''))
                (Inl (DuplicateEntry ''This entry already exists'')))
      (container_entry (container_dn @ example_basedn)) ()
     = (Inl (DuplicateEntry ''This entry already exists''), ()) \<and>
   pre_callback example_basedn
      (fixed_client (Inl (NotFound ''no such entry''))
         (Inl (DuplicateEntry ''This entry already exists'')))
      engineering_dn engineering_entry ()
     = (Inr (engineering_dn,
             make_entry engineering_dn
               [(''ou'', Single ''Engineering''),
                (''objectCategory'',
                 Single ''CN=altOrganizationalUnit,CN=schema,dc=example,dc=com'')]),
        ())"
proof -
  let ?ldap = "fixed_client (Inl (NotFound ''no such entry''))
      (Inl (DuplicateEntry ''This entry already exists''))"
  have probe: "get_entry ?ldap (container_dn @ example_basedn) [''objectclass''] () =
      (Inl (NotFound ''no such entry''), ())"
    by (simp add: fixed_client_def)
  have written: "add_entry ?ldap (container_entry (container_dn @ example_basedn)) () =
      (Inl (DuplicateEntry ''This entry already exists''), ())"
    by (simp add: fixed_client_def)
  from duplicate_entry_suppressed [OF probe written] probe written show ?thesis
    by (simp add: engineering_defaulted)
qed

text \<open>
  C3. When the probe raises \<^verbatim>\<open>NotFound\<close> and the write of the container raises
  anything but \<^verbatim>\<open>DuplicateEntry\<close>, the hook raises \<^verbatim>\<open>NotFound\<close> with the reason
  \<^verbatim>\<open>Failed to create container <container DN>: <text of the cause>\<close>. The calls it
  has issued are the probe and the write of the container, so it has written no child
  entry, and it returns no DN for the framework to write one at.
\<close>

theorem provisioning_failure_raises_NotFound:
  assumes "get_entry ldap (container_dn @ basedn) [''objectclass''] s = (Inl (NotFound reason), s1)"
    and "add_entry ldap (container_entry (container_dn @ basedn)) s1 = (Inl e, s2)"
    and "\<not> is_DuplicateEntry e"
  shows "pre_callback basedn (recording ldap) dn entry_attrs (s, []) =
     (Inl (NotFound (''Failed to create container '' @ dn_str (container_dn @ basedn) @ '': ''
                      @ error_str e)),
      s2,
      [GetEntry (container_dn @ basedn) [''objectclass''],
       AddEntry (container_entry (container_dn @ basedn))])"
proof -
  let ?cdn = "container_dn @ basedn"
  from assms(2) have "add_entry (recording ldap) (container_entry ?cdn)
      (s1, [GetEntry ?cdn [''objectclass'']]) =
      (Inl e, s2, [GetEntry ?cdn [''objectclass''], AddEntry (container_entry ?cdn)])"
    by (simp add: add_entry_recording)
  from this assms(3)
  have "add_container (recording ldap) ?cdn (s1, [GetEntry ?cdn [''objectclass'']]) =
      (Inl (NotFound (''Failed to create container '' @ dn_str ?cdn @ '': '' @ error_str e)),
       s2, [GetEntry ?cdn [''objectclass''], AddEntry (container_entry ?cdn)])"
    by (rule add_container_fails)
  with recorded_absent [OF assms(1), of "[]"]
  have "ensure_container (recording ldap) ?cdn (s, []) =
      (Inl (NotFound (''Failed to create container '' @ dn_str ?cdn @ '': '' @ error_str e)),
       s2, [GetEntry ?cdn [''objectclass''], AddEntry (container_entry ?cdn)])"
    by simp
  then show ?thesis by (rule pre_callback_raises)
qed

theorem provisioning_failure_raises_NotFound_witness:
  "get_entry (fixed_client (Inl (NotFound ''no such entry'')) (Inl (OtherError ''Connection lost'')))
      (container_dn @ example_basedn) [''objectclass''] ()
     = (Inl (NotFound ''no such entry''), ()) \<and>
   add_entry (fixed_client (Inl (NotFound ''no such entry'')) (Inl (OtherError ''Connection lost'')))
      (container_entry (container_dn @ example_basedn)) ()
     = (Inl (OtherError ''Connection lost''), ()) \<and>
   \<not> is_DuplicateEntry (OtherError ''Connection lost'') \<and>
   pre_callback example_basedn
      (recording
         (fixed_client (Inl (NotFound ''no such entry'')) (Inl (OtherError ''Connection lost''))))
      engineering_dn engineering_entry ((), [])
     = (Inl (NotFound ''Failed to create container cn=altou,dc=example,dc=com: Connection lost''),
        (),
        [GetEntry (container_dn @ example_basedn) [''objectclass''],
         AddEntry (container_entry (container_dn @ example_basedn))]) \<and>
   pre_callback acme_basedn
      (recording
         (fixed_client (Inl (NotFound ''no such entry'')) (Inl (OtherError ''Connection lost''))))
      engineering_dn engineering_entry ((), [])
     = (Inl (NotFound (''Failed to create container cn=altou,o=Acme'' @ [CHR 0x5C]
                        @ '', Inc,c=US: Connection lost'')),
        (),
        [GetEntry (container_dn @ acme_basedn) [''objectclass''],
         AddEntry (container_entry (container_dn @ acme_basedn))])"
proof -
  let ?ldap = "fixed_client (Inl (NotFound ''no such entry'')) (Inl (OtherError ''Connection lost''))"
  have probe: "get_entry ?ldap cdn [''objectclass''] () = (Inl (NotFound ''no such entry''), ())"
    for cdn
    by (simp add: fixed_client_def)
  have written: "add_entry ?ldap e () = (Inl (OtherError ''Connection lost''), ())" for e
    by (simp add: fixed_client_def)
  have other: "\<not> is_DuplicateEntry (OtherError ''Connection lost'')"
    by simp
  from provisioning_failure_raises_NotFound [OF probe written other, of example_basedn]
    provisioning_failure_raises_NotFound [OF probe written other, of acme_basedn]
    probe written other
  show ?thesis
    by (simp add: dn_str_example dn_str_acme)
qed

text \<open>
  C4. When the entry handed to the hook has no object category and the hook returns, the
  entry it leaves has the object category
  \<^verbatim>\<open>CN=altOrganizationalUnit,CN=schema,<base DN>\<close>.
\<close>

theorem objectcategory_defaulted:
  assumes "fst (pre_callback basedn ldap dn entry_attrs s) = Inr (dn', entry_attrs')"
    and "\<not> contains ''objectcategory'' entry_attrs"
  shows "getitem ''objectCategory'' entry_attrs' =
     Some (Single (''CN=altOrganizationalUnit,CN=schema,'' @ dn_str basedn))"
proof -
  from assms(1) have "entry_attrs' = default_objectcategory basedn entry_attrs"
    by (simp add: pre_callback_result)
  with assms(2) show ?thesis
    by (simp add: default_objectcategory_absent)
qed

theorem objectcategory_defaulted_witness:
  "fst (pre_callback example_basedn (recording directory_client) engineering_dn engineering_entry
          (Map.empty, []))
     = Inr (engineering_dn,
            make_entry engineering_dn
              [(''ou'', Single ''Engineering''),
               (''objectCategory'', Single ''CN=altOrganizationalUnit,CN=schema,dc=example,dc=com'')]) \<and>
   \<not> contains ''objectcategory'' engineering_entry \<and>
   getitem ''objectCategory''
     (make_entry engineering_dn
        [(''ou'', Single ''Engineering''),
         (''objectCategory'', Single ''CN=altOrganizationalUnit,CN=schema,dc=example,dc=com'')])
     = Some (Single ''CN=altOrganizationalUnit,CN=schema,dc=example,dc=com'') \<and>
   fst (pre_callback acme_basedn (recording directory_client) engineering_dn engineering_entry
          (Map.empty, []))
     = Inr (engineering_dn, default_objectcategory acme_basedn engineering_entry) \<and>
   getitem ''objectCategory'' (default_objectcategory acme_basedn engineering_entry)
     = Some (Single (''CN=altOrganizationalUnit,CN=schema,o=Acme'' @ [CHR 0x5C] @ '', Inc,c=US''))"
proof -
  have returned:
    "fst (pre_callback example_basedn (recording directory_client) engineering_dn
            engineering_entry (Map.empty, []))
     = Inr (engineering_dn,
            make_entry engineering_dn
              [(''ou'', Single ''Engineering''),
               (''objectCategory'', Single ''CN=altOrganizationalUnit,CN=schema,dc=example,dc=com'')])"
    by (simp add: pre_callback_directory engineering_defaulted)
  have returned_acme:
    "fst (pre_callback acme_basedn (recording directory_client) engineering_dn
            engineering_entry (Map.empty, []))
     = Inr (engineering_dn, default_objectcategory acme_basedn engineering_entry)"
    by (simp add: pre_callback_directory)
  have missing: "\<not> contains ''objectcategory'' engineering_entry"
    by (simp add: contains_def engineering_entry_def make_entry_def setitem_def lower_def)
  from objectcategory_defaulted [OF returned missing]
    objectcategory_defaulted [OF returned_acme missing] returned returned_acme missing
  show ?thesis
    by (simp add: dn_str_example_basedn dn_str_acme_basedn)
qed

text \<open>
  C5. When the entry handed to the hook has an object category, under a name of any
  casing, and the hook returns, the entry it leaves is the entry it was handed: the value
  supplied is still there and the default has not been stored.
\<close>

theorem supplied_objectcategory_preserved:
  assumes "fst (pre_callback basedn ldap dn entry_attrs s) = Inr (dn', entry_attrs')"
    and "lower name = ''objectcategory''"
    and "getitem name entry_attrs = Some v"
  shows "entry_attrs' = entry_attrs \<and> getitem name entry_attrs' = Some v"
proof -
  from assms(1) have "entry_attrs' = default_objectcategory basedn entry_attrs"
    by (simp add: pre_callback_result)
  with assms(2,3) show ?thesis
    by (simp add: default_objectcategory_present)
qed

theorem supplied_objectcategory_preserved_witness:
  "fst (pre_callback example_basedn (recording directory_client) engineering_dn custom_entry
          (Map.empty, []))
     = Inr (engineering_dn, custom_entry) \<and>
   lower ''objectCategory'' = ''objectcategory'' \<and>
   getitem ''objectCategory'' custom_entry = Some (Single ''CN=Organizational-Unit,CN=Schema,DC=corp'')"
proof -
  have supplied: "getitem ''objectCategory'' custom_entry =
      Some (Single ''CN=Organizational-Unit,CN=Schema,DC=corp'')"
    by (simp add: getitem_def custom_entry_def make_entry_def setitem_def lower_def)
  have kept: "default_objectcategory example_basedn custom_entry = custom_entry"
    using lower_objectCategory supplied by (rule default_objectcategory_present)
  have returned:
    "fst (pre_callback example_basedn (recording directory_client) engineering_dn custom_entry
            (Map.empty, []))
     = Inr (engineering_dn, custom_entry)"
    by (simp add: pre_callback_directory kept)
  from supplied_objectcategory_preserved [OF returned lower_objectCategory supplied]
    returned lower_objectCategory supplied
  show ?thesis by simp
qed

text \<open>
  C6. When the directory has no entry at \<^verbatim>\<open>cn=altou,<base DN>\<close>, the hook writes
  one entry there and the directory then holds it: its object classes are
  \<^verbatim>\<open>nsContainer\<close> and \<^verbatim>\<open>top\<close>, its only other attribute is \<^verbatim>\<open>cn\<close> with the
  one value \<^verbatim>\<open>altou\<close>.
\<close>

theorem absent_container_created:
  assumes "dir (container_dn @ basedn) = None"
  shows "pre_callback basedn (recording directory_client) dn entry_attrs (dir, []) =
     (Inr (dn, default_objectcategory basedn entry_attrs),
      dir([(''cn'', ''altou'')] # basedn \<mapsto>
        \<lparr>entry_dn = [(''cn'', ''altou'')] # basedn,
         entry_map = [''objectclass'' \<mapsto> Multi [''nsContainer'', ''top''],
                      ''cn'' \<mapsto> Multi [''altou'']]\<rparr>),
      [GetEntry ([(''cn'', ''altou'')] # basedn) [''objectclass''],
       AddEntry \<lparr>entry_dn = [(''cn'', ''altou'')] # basedn,
         entry_map = [''objectclass'' \<mapsto> Multi [''nsContainer'', ''top''],
                      ''cn'' \<mapsto> Multi [''altou'']]\<rparr>])"
proof -
  have cdn: "container_dn @ basedn = [(''cn'', ''altou'')] # basedn"
    by (simp add: container_dn_def)
  from assms show ?thesis
    by (simp add: pre_callback_directory container_entry_eq cdn)
qed

theorem absent_container_created_witness:
  "Map.empty (container_dn @ example_basedn) = (None :: ldap_entry option) \<and>
   dn_str ([(''cn'', ''altou'')] # example_basedn) = ''cn=altou,dc=example,dc=com'' \<and>
   pre_callback example_basedn (recording directory_client) engineering_dn engineering_entry
       (Map.empty, []) =
     (Inr (engineering_dn, default_objectcategory example_basedn engineering_entry),
      [[(''cn'', ''altou'')] # example_basedn \<mapsto>
        \<lparr>entry_dn = [(''cn'', ''altou'')] # example_basedn,
         entry_map = [''objectclass'' \<mapsto> Multi [''nsContainer'', ''top''],
                      ''cn'' \<mapsto> Multi [''altou'']]\<rparr>],
      [GetEntry ([(''cn'', ''altou'')] # example_basedn) [''objectclass''],
       AddEntry \<lparr>entry_dn = [(''cn'', ''altou'')] # example_basedn,
         entry_map = [''objectclass'' \<mapsto> Multi [''nsContainer'', ''top''],
                      ''cn'' \<mapsto> Multi [''altou'']]\<rparr>])"
proof -
  have absent: "Map.empty (container_dn @ example_basedn) = (None :: ldap_entry option)"
    by simp
  have name: "dn_str ([(''cn'', ''altou'')] # example_basedn) = ''cn=altou,dc=example,dc=com''"
    by (simp add: example_basedn_def dn_str_defs)
  from absent_container_created [OF absent, where dn = engineering_dn and entry_attrs = engineering_entry]
    absent name
  show ?thesis by simp
qed

text \<open>
  C7. The probe is a read of the container DN that asks for the attribute
  \<^verbatim>\<open>objectclass\<close> alone. When it finds the entry, EnsureContainer succeeds, that read
  is the only call it has issued, and the connection is in the state the read left.
\<close>

theorem found_container_no_write:
  assumes "get_entry ldap cdn [''objectclass''] s = (Inr found, s1)"
  shows "ensure_container (recording ldap) cdn (s, []) =
     (Inr (), s1, [GetEntry cdn [''objectclass'']])"
  using recorded_found [OF assms, of "[]"] by simp

theorem found_container_no_write_witness:
  "get_entry directory_client (container_dn @ example_basedn) [''objectclass'']
      [container_dn @ example_basedn \<mapsto> container_entry (container_dn @ example_basedn)]
     = (Inr \<lparr>entry_dn = container_dn @ example_basedn,
             entry_map = [''objectclass'' \<mapsto> Multi [''nsContainer'', ''top'']]\<rparr>,
        [container_dn @ example_basedn \<mapsto> container_entry (container_dn @ example_basedn)]) \<and>
   ensure_container (recording directory_client) (container_dn @ example_basedn)
      ([container_dn @ example_basedn \<mapsto> container_entry (container_dn @ example_basedn)], [])
     = (Inr (),
        [container_dn @ example_basedn \<mapsto> container_entry (container_dn @ example_basedn)],
        [GetEntry (container_dn @ example_basedn) [''objectclass'']])"
proof -
  have probe: "get_entry directory_client (container_dn @ example_basedn) [''objectclass'']
      [container_dn @ example_basedn \<mapsto> container_entry (container_dn @ example_basedn)]
     = (Inr \<lparr>entry_dn = container_dn @ example_basedn,
             entry_map = [''objectclass'' \<mapsto> Multi [''nsContainer'', ''top'']]\<rparr>,
        [container_dn @ example_basedn \<mapsto> container_entry (container_dn @ example_basedn)])"
    by (simp add: get_entry_directory_client container_entry_eq lower_def restrict_map_def fun_eq_iff)
  from found_container_no_write [OF probe] probe show ?thesis
    by simp
qed

text \<open>
  C8. When the hook returns, every attribute whose name is not a casing of
  \<^verbatim>\<open>objectcategory\<close> has in the entry the hook leaves the value it had in the entry
  the hook was handed, and is absent from the one when absent from the other.
\<close>

theorem other_attributes_untouched:
  assumes "fst (pre_callback basedn ldap dn entry_attrs s) = Inr (dn', entry_attrs')"
    and "lower name \<noteq> ''objectcategory''"
  shows "getitem name entry_attrs' = getitem name entry_attrs"
proof -
  from assms(1) have "entry_attrs' = default_objectcategory basedn entry_attrs"
    by (simp add: pre_callback_result)
  with assms(2) show ?thesis
    by (simp add: default_objectcategory_other)
qed

theorem other_attributes_untouched_witness:
  "fst (pre_callback example_basedn (recording directory_client) engineering_dn engineering_entry
          (Map.empty, []))
     = Inr (engineering_dn, default_objectcategory example_basedn engineering_entry) \<and>
   lower ''gplink'' \<noteq> ''objectcategory'' \<and>
   lower ''ou'' \<noteq> ''objectcategory'' \<and>
   getitem ''gplink'' engineering_entry = None \<and>
   getitem ''gplink'' (default_objectcategory example_basedn engineering_entry) = None \<and>
   getitem ''ou'' (default_objectcategory example_basedn engineering_entry) =
     Some (Single ''Engineering'')"
proof -
  have returned:
    "fst (pre_callback example_basedn (recording directory_client) engineering_dn
            engineering_entry (Map.empty, []))
     = Inr (engineering_dn, default_objectcategory example_basedn engineering_entry)"
    by (simp add: pre_callback_directory)
  have gplink: "lower ''gplink'' \<noteq> ''objectcategory''"
    by (simp add: lower_def)
  have ou: "lower ''ou'' \<noteq> ''objectcategory''"
    by (simp add: lower_def)
  have before: "getitem ''gplink'' engineering_entry = None
      \<and> getitem ''ou'' engineering_entry = Some (Single ''Engineering'')"
    by (simp add: getitem_def engineering_entry_def make_entry_def setitem_def lower_def)
  from other_attributes_untouched [OF returned gplink] other_attributes_untouched [OF returned ou]
    returned gplink ou before
  show ?thesis by simp
qed

text \<open>
  C9. Whatever the client answers, the calls the hook issues are the probe alone, or
  the probe and then the write of the container; the write is there exactly when the
  probe raised \<^verbatim>\<open>NotFound\<close>. So the hook issues at most two calls, at most one of
  them a write.
\<close>

theorem at_most_two_round_trips:
  "snd (snd (pre_callback basedn (recording ldap) dn entry_attrs (s, []))) =
     (if raises_NotFound (fst (get_entry ldap (container_dn @ basedn) [''objectclass''] s))
      then [GetEntry (container_dn @ basedn) [''objectclass''],
            AddEntry (container_entry (container_dn @ basedn))]
      else [GetEntry (container_dn @ basedn) [''objectclass'']]) \<and>
   length (snd (snd (pre_callback basedn (recording ldap) dn entry_attrs (s, [])))) \<le> 2"
  by (simp add: pre_callback_state recorded_calls)

text \<open>
  C10. Whenever the hook returns, the DN it returns is the DN it was given.
\<close>

theorem pre_callback_returns_dn:
  assumes "fst (pre_callback basedn ldap dn entry_attrs s) = Inr (dn', entry_attrs')"
  shows "dn' = dn"
  using assms by (simp add: pre_callback_result)

theorem pre_callback_returns_dn_witness:
  "\<exists>entry_attrs'.
     fst (pre_callback example_basedn (recording directory_client) engineering_dn
            engineering_entry (Map.empty, []))
       = Inr (engineering_dn, entry_attrs')"
proof -
  obtain dn' entry_attrs' where returned:
    "fst (pre_callback example_basedn (recording directory_client) engineering_dn
            engineering_entry (Map.empty, []))
       = Inr (dn', entry_attrs')"
    by (simp add: pre_callback_directory)
  from pre_callback_returns_dn [OF returned] have "dn' = engineering_dn" .
  with returned show ?thesis by simp
qed

end
